theory Spec2Isabelle
  imports Main "HOL-Library.Char_ord" "HOL-Library.List_Lexorder"
begin

section \<open>String methods of Python\<close>

text \<open>\<^verbatim>\<open>str.strip()\<close> on the ASCII range: the characters for which \<^verbatim>\<open>str.isspace\<close> holds.\<close>

definition py_isspace :: "char \<Rightarrow> bool" where
  "py_isspace ch = (of_char ch \<in> {9, 10, 11, 12, 13, 28, 29, 30, 31, 32 :: nat})"

definition strip :: "string \<Rightarrow> string" where
  "strip s = rev (dropWhile py_isspace (rev (dropWhile py_isspace s)))"

text \<open>\<^verbatim>\<open>text[:n]\<close>: a negative bound counts from the end.\<close>

definition slice_to :: "string \<Rightarrow> int \<Rightarrow> string" where
  "slice_to text n =
     (if 0 \<le> n then take (nat n) text else take (nat (int (length text) + n)) text)"

text \<open>\<^verbatim>\<open>text.split()\<close>: the maximal runs of non-whitespace characters.\<close>

fun split_acc :: "string \<Rightarrow> string \<Rightarrow> string list" where
  "split_acc word [] = (if word = [] then [] else [word])"
| "split_acc word (ch # rest) =
     (if py_isspace ch then (if word = [] then split_acc [] rest else word # split_acc [] rest)
      else split_acc (word @ [ch]) rest)"

definition split :: "string \<Rightarrow> string list" where
  "split text = split_acc [] text"

text \<open>\<^verbatim>\<open>text.split(sep)\<close> for a separator of one character: never an empty list.\<close>

fun split_sep_acc :: "char \<Rightarrow> string \<Rightarrow> string \<Rightarrow> string list" where
  "split_sep_acc sep part [] = [part]"
| "split_sep_acc sep part (ch # rest) =
     (if ch = sep then part # split_sep_acc sep [] rest
      else split_sep_acc sep (part @ [ch]) rest)"

definition split_sep :: "char \<Rightarrow> string \<Rightarrow> string list" where
  "split_sep sep text = split_sep_acc sep [] text"

text \<open>\<^verbatim>\<open>sep.join(parts)\<close>\<close>

fun join :: "string \<Rightarrow> string list \<Rightarrow> string" where
  "join sep [] = []"
| "join sep [p] = p"
| "join sep (p # q # ps) = p @ sep @ join sep (q # ps)"

definition startswith :: "string \<Rightarrow> string \<Rightarrow> bool" where
  "startswith name prefix = (take (length prefix) name = prefix)"

text \<open>\<^verbatim>\<open>text.lower()\<close> on the ASCII range.\<close>

definition lower_char :: "char \<Rightarrow> char" where
  "lower_char ch =
     (if 65 \<le> (of_char ch :: nat) \<and> (of_char ch :: nat) \<le> 90
      then char_of ((of_char ch :: nat) + 32) else ch)"

definition lower :: "string \<Rightarrow> string" where
  "lower text = map lower_char text"

text \<open>\<^verbatim>\<open>f"{text:<{width}}"\<close>: the text, filled with spaces on the right up to the width.\<close>

definition ljust :: "nat \<Rightarrow> string \<Rightarrow> string" where
  "ljust width text = text @ replicate (width - length text) (CHR '' '')"

section \<open>Python values, exceptions and the process-wide state\<close>

text \<open>
  A Python object as far as \<^verbatim>\<open>PythonExecutor.run\<close> looks at it: \<^verbatim>\<open>None\<close>, or an object
  with an identity (what \<^verbatim>\<open>id()\<close> returns, compared by \<^verbatim>\<open>is\<close>) and the text of its
  \<^verbatim>\<open>repr()\<close>.
\<close>

datatype pyval = PyNone | PyObj (ident: nat) (repr_text: string)

definition py_is :: "pyval \<Rightarrow> pyval \<Rightarrow> bool" where
  "py_is a b =
     (case a of
        PyNone \<Rightarrow> b = PyNone
      | PyObj i _ \<Rightarrow> (case b of PyNone \<Rightarrow> False | PyObj j _ \<Rightarrow> i = j))"

text \<open>
  The exception classes that the handlers of \<^verbatim>\<open>run\<close> tell apart: \<^verbatim>\<open>SyntaxError\<close> (and its
  subclasses), \<^verbatim>\<open>KeyboardInterrupt\<close>, every other subclass of \<^verbatim>\<open>Exception\<close>, and the
  remaining subclasses of \<^verbatim>\<open>BaseException\<close> (\<^verbatim>\<open>SystemExit\<close>, \<^verbatim>\<open>GeneratorExit\<close>).
\<close>

datatype exc_kind = SyntaxError_kind | KeyboardInterrupt_kind | Exception_kind | BaseException_kind

datatype pyexc = PyExc (kind: exc_kind) (type_name: string) (message: string)

definition is_SyntaxError :: "pyexc \<Rightarrow> bool" where
  "is_SyntaxError e = (kind e = SyntaxError_kind)"

definition is_KeyboardInterrupt :: "pyexc \<Rightarrow> bool" where
  "is_KeyboardInterrupt e = (kind e = KeyboardInterrupt_kind)"

definition is_Exception :: "pyexc \<Rightarrow> bool" where
  "is_Exception e = (kind e = SyntaxError_kind \<or> kind e = Exception_kind)"

definition KeyboardInterrupt :: pyexc where
  "KeyboardInterrupt = PyExc KeyboardInterrupt_kind ''KeyboardInterrupt'' ''''"

text \<open>
  The objects that \<^verbatim>\<open>sys.stdout\<close>, \<^verbatim>\<open>sys.stderr\<close> and \<^verbatim>\<open>sys.stdin\<close> can point to: a stream of
  the process, or one of the two \<^verbatim>\<open>io.StringIO\<close> buffers of the running turn. Likewise for
  \<^verbatim>\<open>builtins.input\<close>: the interpreter's own function, the closure \<^verbatim>\<open>interactive_input\<close> of
  the running turn, or a function put there by executed code.
\<close>

datatype stream = Device nat | StringIO_out | StringIO_err

datatype input_fn = Builtin_input | Interactive_input | Other_input nat

type_synonym hook = nat

text \<open>
  The fields of \<^verbatim>\<open>PythonExecutor\<close> (\<^verbatim>\<open>code\<close>, \<^verbatim>\<open>globals_dict\<close>, \<^verbatim>\<open>locals_dict\<close>,
  \<^verbatim>\<open>input_response\<close>, \<^verbatim>\<open>interrupted\<close>, \<^verbatim>\<open>initial_globals\<close>), the attributes of the modules
  \<^verbatim>\<open>sys\<close> and \<^verbatim>\<open>builtins\<close> that \<^verbatim>\<open>run\<close> reads or writes, and the contents of the two capture
  buffers of the turn. \<^verbatim>\<open>builtins_underscore\<close> is \<open>None\<close> when \<^verbatim>\<open>builtins\<close> has no attribute
  \<^verbatim>\<open>_\<close>; a hook field is \<open>None\<close> when the attribute is missing or not callable.
  \<^verbatim>\<open>builtins_names\<close> is \<^verbatim>\<open>dir(builtins)\<close>; \<^verbatim>\<open>next_id\<close> numbers the objects that the engine
  itself creates with \<^verbatim>\<open>object()\<close>.
\<close>

record state =
  code :: string
  globals_dict :: "(string \<times> pyval) list"
  locals_dict :: "(string \<times> pyval) list"
  input_response :: "string option"
  interrupted :: bool
  initial_globals :: "string list"
  sys_stdout :: stream
  sys_stderr :: stream
  sys_stdin :: stream
  sys_displayhook :: "hook option"
  sys_excepthook :: "hook option"
  builtins_input :: input_fn
  builtins_underscore :: "pyval option"
  builtins_names :: "string list"
  stdout_capture :: string
  stderr_capture :: string
  next_id :: nat

text \<open>
  A Python \<^verbatim>\<open>dict\<close> keeps its keys in insertion order, and the completion code iterates over
  them, so the two namespaces are association lists with unique keys: \<^verbatim>\<open>d[k] = v\<close> replaces
  the value in place when the key is there and appends the pair otherwise.
\<close>

fun dict_set :: "(string \<times> pyval) list \<Rightarrow> string \<Rightarrow> pyval \<Rightarrow> (string \<times> pyval) list" where
  "dict_set [] k v = [(k, v)]"
| "dict_set ((k', v') # d) k v = (if k' = k then (k, v) # d else (k', v') # dict_set d k v)"

definition dict_get :: "(string \<times> pyval) list \<Rightarrow> string \<Rightarrow> pyval option" where
  "dict_get d k = map_of d k"

definition dict_keys :: "(string \<times> pyval) list \<Rightarrow> string list" where
  "dict_keys d = map fst d"

section \<open>Executed code and the events of a turn\<close>

text \<open>
  The signals of \<^verbatim>\<open>PythonExecutor\<close>, and the two calls by which the controller answers an
  input request: \<^verbatim>\<open>provide_input(text)\<close> and \<^verbatim>\<open>interrupt_execution()\<close>.
\<close>

datatype event = Output_ready string | Input_requested string | Execution_finished string bool

datatype reply = Provide_input string | Interrupt_execution

text \<open>
  What a compiled fragment or a hook does when the interpreter runs it, as a tree of the
  steps the engine can observe: it returns a value, raises, changes the state, reads the
  state, or calls the turn's \<^verbatim>\<open>interactive_input\<close> with a prompt and goes on with what the
  call gave (the text, or the exception the call raised, which the code may catch).
\<close>

datatype pycode =
    Return pyval
  | Raise pyexc
  | Effect "state \<Rightarrow> state" pycode
  | Read "state \<Rightarrow> pycode"
  | Input string "pyexc + string \<Rightarrow> pycode"

text \<open>
  The interpreter, as far as it is not part of this repository: \<^verbatim>\<open>compile\<close> in mode
  \<^verbatim>\<open>'eval'\<close> and in mode \<^verbatim>\<open>'exec'\<close> (an exception or the compiled code), what calling
  \<^verbatim>\<open>sys.displayhook(result)\<close> and \<^verbatim>\<open>sys.excepthook(type(e), e, e.__traceback__)\<close> runs, and
  \<^verbatim>\<open>dir(eval(obj_name, globals_dict))\<close> as the completion code calls it (\<open>None\<close> when the
  call raises).
\<close>

record runtime =
  compile_eval :: "string \<Rightarrow> pyexc + pycode"
  compile_exec :: "string \<Rightarrow> pyexc + pycode"
  call_displayhook :: "hook \<Rightarrow> pyval \<Rightarrow> pycode"
  call_excepthook :: "hook \<Rightarrow> pyexc \<Rightarrow> pycode"
  eval_dir :: "string \<Rightarrow> state \<Rightarrow> string list option"

type_synonym conf = "state \<times> reply list \<times> event list"

text \<open>
  The closure \<^verbatim>\<open>interactive_input(prompt)\<close>: pending captured output is emitted and the
  buffer cleared, the request is emitted, and the worker waits for the controller. With no
  reply left the wait never ends (\<open>None\<close>). \<^verbatim>\<open>provide_input\<close> stores the text,
  \<^verbatim>\<open>interrupt_execution\<close> sets the flag; after the wait a set flag raises
  \<^verbatim>\<open>KeyboardInterrupt()\<close>, otherwise the call returns \<^verbatim>\<open>self.input_response or ""\<close>.
\<close>

definition interactive_input :: "string \<Rightarrow> conf \<Rightarrow> (pyexc + string) option \<times> conf" where
  "interactive_input prompt c =
     (case c of (st, rs, evs) \<Rightarrow>
        let pending_output = stdout_capture st;
            st1 = (if pending_output \<noteq> [] then st\<lparr>stdout_capture := []\<rparr> else st);
            evs1 = (if pending_output \<noteq> [] then evs @ [Output_ready pending_output] else evs);
            st2 = st1\<lparr>input_response := None\<rparr>;
            evs2 = evs1 @ [Input_requested prompt]
        in (case rs of
              [] \<Rightarrow> (None, (st2, [], evs2))
            | r # rs' \<Rightarrow>
                let st3 = (case r of
                             Provide_input user_input \<Rightarrow> st2\<lparr>input_response := Some user_input\<rparr>
                           | Interrupt_execution \<Rightarrow> st2\<lparr>interrupted := True\<rparr>)
                in if interrupted st3 then (Some (Inl KeyboardInterrupt), (st3, rs', evs2))
                   else (Some (Inr (case input_response st3 of Some s \<Rightarrow> s | None \<Rightarrow> [])),
                         (st3, rs', evs2))))"

datatype result = Value pyval | Raised pyexc | Blocked

primrec exec_code :: "pycode \<Rightarrow> conf \<Rightarrow> result \<times> conf" where
  "exec_code (Return v) c = (Value v, c)"
| "exec_code (Raise e) c = (Raised e, c)"
| "exec_code (Effect f k) c = exec_code k (f (fst c), snd c)"
| "exec_code (Read k) c = exec_code (k (fst c)) c"
| "exec_code (Input prompt k) c =
     (case interactive_input prompt c of
        (None, c') \<Rightarrow> (Blocked, c')
      | (Some r, c') \<Rightarrow> exec_code (k r) c')"

section \<open>PythonExecutor.run\<close>

text \<open>The locals of \<^verbatim>\<open>run\<close> that its handlers assign.\<close>

record frame =
  result_value :: pyval
  exception_occurred :: bool

datatype signal = Normal | Exc pyexc | Block

text \<open>
  \<^verbatim>\<open>getattr(builtins, '_', object())\<close>: the attribute when it is there, a new object
  otherwise. \<open>Default\<close> marks the new object: it is identical (\<^verbatim>\<open>is\<close>) to nothing that was
  made before it, so two probes are the same object only when both found the attribute and
  the two attributes are the same object.
\<close>

datatype probe = Found pyval | Default pyval

definition getattr_underscore :: "state \<Rightarrow> probe \<times> state" where
  "getattr_underscore st =
     (case builtins_underscore st of
        Some v \<Rightarrow> (Found v, st\<lparr>next_id := Suc (next_id st)\<rparr>)
      | None \<Rightarrow> (Default (PyObj (next_id st) ''<object object>''), st\<lparr>next_id := Suc (next_id st)\<rparr>))"

fun probe_value :: "probe \<Rightarrow> pyval" where
  "probe_value (Found v) = v"
| "probe_value (Default v) = v"

fun is_not :: "probe \<Rightarrow> probe \<Rightarrow> bool" where
  "is_not (Found a) (Found b) = (\<not> py_is a b)"
| "is_not _ _ = True"

text \<open>
  \<^verbatim>\<open>stream.write(text)\<close>: text written to a capture buffer is kept there, text written to a
  stream of the process leaves the turn. \<^verbatim>\<open>print(text)\<close> writes the text and a newline to
  whatever \<^verbatim>\<open>sys.stdout\<close> is now.
\<close>

definition write_stream :: "stream \<Rightarrow> string \<Rightarrow> state \<Rightarrow> state" where
  "write_stream s text st =
     (case s of
        StringIO_out \<Rightarrow> st\<lparr>stdout_capture := stdout_capture st @ text\<rparr>
      | StringIO_err \<Rightarrow> st\<lparr>stderr_capture := stderr_capture st @ text\<rparr>
      | Device _ \<Rightarrow> st)"

definition py_print :: "string \<Rightarrow> state \<Rightarrow> state" where
  "py_print text st = write_stream (sys_stdout st) (text @ [CHR 0x0A]) st"

text \<open>Lines 183 to 204: what \<^verbatim>\<open>run\<close> does with the value of the expression.\<close>

definition display_result :: "runtime \<Rightarrow> pyval \<Rightarrow> frame \<times> conf \<Rightarrow> signal \<times> frame \<times> conf" where
  "display_result rt res fc =
     (case fc of (fr, st, rs, evs) \<Rightarrow>
        if res \<noteq> PyNone then
          (case sys_displayhook st of
             Some h \<Rightarrow>
               (case getattr_underscore st of (old_underscore, st1) \<Rightarrow>
                  (case exec_code (call_displayhook rt h res) (st1, rs, evs) of
                     (Value displayhook_result, st2, rs2, evs2) \<Rightarrow>
                       (case getattr_underscore st2 of (new_underscore, st3) \<Rightarrow>
                          if is_not new_underscore old_underscore then
                            (Normal, fr\<lparr>result_value := PyNone\<rparr>,
                             st3\<lparr>globals_dict :=
                                    dict_set (globals_dict st3) ''_'' (probe_value new_underscore)\<rparr>,
                             rs2, evs2)
                          else
                            (Normal,
                             fr\<lparr>result_value :=
                                  (if displayhook_result \<noteq> PyNone then displayhook_result else res)\<rparr>,
                             st3, rs2, evs2))
                   | (Raised e, c2) \<Rightarrow> (Exc e, fr, c2)
                   | (Blocked, c2) \<Rightarrow> (Block, fr, c2)))
           | None \<Rightarrow> (Normal, fr\<lparr>result_value := res\<rparr>, py_print (repr_text res) st, rs, evs))
        else (Normal, fr, st, rs, evs))"

text \<open>Lines 181 to 204: the body of the inner \<^verbatim>\<open>try\<close>.\<close>

definition try_expression :: "runtime \<Rightarrow> frame \<times> conf \<Rightarrow> signal \<times> frame \<times> conf" where
  "try_expression rt fc =
     (case fc of (fr, st, rs, evs) \<Rightarrow>
        (case compile_eval rt (code st) of
           Inl e \<Rightarrow> (Exc e, fr, st, rs, evs)
         | Inr compiled \<Rightarrow>
             (case exec_code compiled (st, rs, evs) of
                (Value res, c1) \<Rightarrow> display_result rt res (fr, c1)
              | (Raised e, c1) \<Rightarrow> (Exc e, fr, c1)
              | (Blocked, c1) \<Rightarrow> (Block, fr, c1))))"

text \<open>
  The handler that lines 212 to 222, 225 to 235 and 243 to 253 share, up to the text of the
  fallback: the exception goes to \<^verbatim>\<open>sys.excepthook\<close> when there is a callable one, and a
  value the hook returns becomes the result of the turn; otherwise a line is written to the
  captured standard error.
\<close>

definition basic_error :: "pyexc \<Rightarrow> string" where
  "basic_error e = type_name e @ '': '' @ message e @ [CHR 0x0A]"

definition execution_error :: "pyexc \<Rightarrow> string" where
  "execution_error e = ''Execution error: '' @ message e @ [CHR 0x0A]"

definition handle_exception ::
  "runtime \<Rightarrow> (pyexc \<Rightarrow> string) \<Rightarrow> pyexc \<Rightarrow> frame \<times> conf \<Rightarrow> signal \<times> frame \<times> conf" where
  "handle_exception rt fallback e fc =
     (case fc of (fr, st, rs, evs) \<Rightarrow>
        let fr1 = fr\<lparr>exception_occurred := True\<rparr> in
        (case sys_excepthook st of
           Some h \<Rightarrow>
             (case exec_code (call_excepthook rt h e) (st, rs, evs) of
                (Value excepthook_result, c1) \<Rightarrow>
                  if excepthook_result \<noteq> PyNone
                  then (Normal, fr1\<lparr>result_value := excepthook_result, exception_occurred := False\<rparr>, c1)
                  else (Normal, fr1, c1)
              | (Raised e', c1) \<Rightarrow> (Exc e', fr1, c1)
              | (Blocked, c1) \<Rightarrow> (Block, fr1, c1))
         | None \<Rightarrow> (Normal, fr1, st\<lparr>stderr_capture := stderr_capture st @ fallback e\<rparr>, rs, evs)))"

text \<open>Lines 207 to 222: the handler of \<^verbatim>\<open>except SyntaxError\<close>.\<close>

definition try_statement :: "runtime \<Rightarrow> frame \<times> conf \<Rightarrow> signal \<times> frame \<times> conf" where
  "try_statement rt fc =
     (case fc of (fr, st, rs, evs) \<Rightarrow>
        (case (case compile_exec rt (code st) of
                 Inl e \<Rightarrow> (Raised e, st, rs, evs)
               | Inr compiled \<Rightarrow> exec_code compiled (st, rs, evs)) of
           (Value _, c1) \<Rightarrow> (Normal, fr, c1)
         | (Blocked, c1) \<Rightarrow> (Block, fr, c1)
         | (Raised e, c1) \<Rightarrow>
             if is_KeyboardInterrupt e then (Exc e, fr, c1)
             else if is_Exception e then handle_exception rt basic_error e (fr, c1)
             else (Exc e, fr, c1)))"

text \<open>Lines 180 to 235: the inner \<^verbatim>\<open>try\<close> with its three handlers.\<close>

definition inner_try :: "runtime \<Rightarrow> frame \<times> conf \<Rightarrow> signal \<times> frame \<times> conf" where
  "inner_try rt fc =
     (case try_expression rt fc of
        (Exc e, fc1) \<Rightarrow>
          if is_SyntaxError e then try_statement rt fc1
          else if is_KeyboardInterrupt e then (Exc e, fc1)
          else if is_Exception e then handle_exception rt basic_error e fc1
          else (Exc e, fc1)
      | other \<Rightarrow> other)"

text \<open>Lines 254 to 259: the \<^verbatim>\<open>finally\<close> clause.\<close>

definition restore :: "stream \<Rightarrow> stream \<Rightarrow> stream \<Rightarrow> input_fn \<Rightarrow> state \<Rightarrow> state" where
  "restore old_stdout old_stderr old_stdin old_input st =
     st\<lparr>sys_stdout := old_stdout, sys_stderr := old_stderr, sys_stdin := old_stdin,
        builtins_input := old_input\<rparr>"

text \<open>Lines 261 to 282: the output of the turn, the update of \<^verbatim>\<open>_\<close> and the final signal.\<close>

definition combined_output :: "string \<Rightarrow> string \<Rightarrow> string" where
  "combined_output stdout_output stderr_output =
     (if stderr_output \<noteq> [] then
        (if stdout_output = [] then stderr_output
         else stdout_output @ [CHR 0x0A] @ stderr_output)
      else stdout_output)"

definition finish :: "frame \<times> conf \<Rightarrow> conf" where
  "finish fc =
     (case fc of (fr, st, rs, evs) \<Rightarrow>
        let stdout_output = stdout_capture st;
            stderr_output = stderr_capture st;
            output = combined_output stdout_output stderr_output;
            is_error = (stderr_output \<noteq> []);
            st1 = (if \<not> exception_occurred fr \<and> result_value fr \<noteq> PyNone
                   then st\<lparr>globals_dict := dict_set (globals_dict st) ''_'' (result_value fr),
                           builtins_underscore := Some (result_value fr)\<rparr>
                   else st)
        in (st1, rs, evs @ [Execution_finished output is_error]))"

text \<open>
  How a call of \<^verbatim>\<open>run\<close> ends: it returns, an exception leaves it, or the worker stays in an
  input wait that nobody releases.
\<close>

datatype outcome = Returned | Propagated pyexc | Waiting

text \<open>
  Lines 126 to 127 and 174 to 177: two empty capture buffers, and the redirection of
  \<^verbatim>\<open>sys.stdout\<close>, \<^verbatim>\<open>sys.stderr\<close> and \<^verbatim>\<open>builtins.input\<close>.
\<close>

definition install :: "state \<Rightarrow> state" where
  "install st =
     st\<lparr>stdout_capture := [], stderr_capture := [],
        sys_stdout := StringIO_out, sys_stderr := StringIO_err,
        builtins_input := Interactive_input\<rparr>"

definition interrupt_text :: string where
  "interrupt_text = ''^C'' @ [CHR 0x0A] @ ''KeyboardInterrupt''"

definition run :: "runtime \<Rightarrow> conf \<Rightarrow> outcome \<times> conf" where
  "run rt c =
     (case c of (st0, rs, evs) \<Rightarrow>
        let st = st0\<lparr>interrupted := False\<rparr> in
        if strip (code st) = [] then (Returned, st, rs, evs @ [Execution_finished [] False])
        else
          let old_stdout = sys_stdout st;
              old_stderr = sys_stderr st;
              old_stdin = sys_stdin st;
              old_input = builtins_input st;
              fr = \<lparr>result_value = PyNone, exception_occurred = False\<rparr>;
              finally = restore old_stdout old_stderr old_stdin old_input
          in (case inner_try rt (fr, install st, rs, evs) of
                (Block, fr1, c1) \<Rightarrow> (Waiting, c1)
              | (Normal, fr1, st2, rs2, evs2) \<Rightarrow> (Returned, finish (fr1, finally st2, rs2, evs2))
              | (Exc e, fr1, st2, rs2, evs2) \<Rightarrow>
                  if is_KeyboardInterrupt e then
                    (Returned, finally st2, rs2, evs2 @ [Execution_finished interrupt_text True])
                  else if is_Exception e then
                    (case handle_exception rt execution_error e (fr1, st2, rs2, evs2) of
                       (Normal, fr2, st3, rs3, evs3) \<Rightarrow>
                         (Returned, finish (fr2, finally st3, rs3, evs3))
                     | (Exc e', fr2, st3, rs3, evs3) \<Rightarrow> (Propagated e', finally st3, rs3, evs3)
                     | (Block, fr2, c3) \<Rightarrow> (Waiting, c3))
                  else (Propagated e, finally st2, rs2, evs2)))"

section \<open>TerminalWidget\<close>

text \<open>
  The widget as far as the line editor goes: the text of the document, the position of the
  text cursor (no selection), and the fields of \<^verbatim>\<open>TerminalWidget\<close>. Character formats and
  syntax colours are left out; they do not change the text.
\<close>

record terminal =
  document :: string
  cursor :: nat
  command_start_position :: nat
  command_history :: "string list"
  history_index :: int
  current_prompt :: string
  waiting_for_input :: bool
  pyco_download_pending :: bool
  input_prompt :: string
  last_input_cursor_position :: "nat option"
  python_executor :: state

text \<open>
  What a handler asks of its collaborators: a call of the executor's \<^verbatim>\<open>provide_input\<close> or
  \<^verbatim>\<open>interrupt_execution\<close>, the start of the worker thread, the download of the companion
  script.
\<close>

datatype action = Send reply | Start_execution | Download_pyco

definition get_current_command :: "terminal \<Rightarrow> string" where
  "get_current_command t = drop (command_start_position t) (document t)"

text \<open>
  \<^verbatim>\<open>set_current_command\<close> edits through a cursor of its own. The widget's cursor follows
  the edit as Qt moves it: a cursor inside the replaced text ends behind the new text.
\<close>

definition set_current_command :: "string \<Rightarrow> terminal \<Rightarrow> terminal" where
  "set_current_command command t =
     (let doc = take (command_start_position t) (document t) @ command
      in t\<lparr>document := doc,
           cursor := (if command_start_position t \<le> cursor t then length doc else cursor t)\<rparr>)"

text \<open>\<^verbatim>\<open>cursor.movePosition(End); cursor.insertText(text); self.setTextCursor(cursor)\<close>\<close>

definition insert_at_end :: "string \<Rightarrow> terminal \<Rightarrow> terminal" where
  "insert_at_end text t =
     (let doc = document t @ text in t\<lparr>document := doc, cursor := length doc\<rparr>)"

text \<open>\<^verbatim>\<open>cursor = self.textCursor(); cursor.insertText(text); self.setTextCursor(cursor)\<close>\<close>

definition insert_at_cursor :: "string \<Rightarrow> terminal \<Rightarrow> terminal" where
  "insert_at_cursor text t =
     t\<lparr>document := take (cursor t) (document t) @ text @ drop (cursor t) (document t),
        cursor := min (cursor t) (length (document t)) + length text\<rparr>"

definition insert_prompt :: "terminal \<Rightarrow> terminal" where
  "insert_prompt t =
     (let doc = document t @ current_prompt t
      in t\<lparr>document := doc, cursor := length doc, command_start_position := length doc,
           last_input_cursor_position := Some (length doc)\<rparr>)"

definition append_system_message :: "string \<Rightarrow> terminal \<Rightarrow> terminal" where
  "append_system_message msg t = insert_at_end msg t"

subsection \<open>Completion\<close>

definition get_all_completions :: "terminal \<Rightarrow> string list" where
  "get_all_completions t =
     sort (remdups
       (filter (\<lambda>name. \<not> startswith name ''_'' \<and> name \<notin> set (initial_globals (python_executor t)))
          (dict_keys (globals_dict (python_executor t)))))"

definition get_completions :: "runtime \<Rightarrow> terminal \<Rightarrow> string \<Rightarrow> int \<Rightarrow> string list" where
  "get_completions rt t text cursor_pos =
     (let words = split (slice_to text cursor_pos) in
      if words = [] then get_all_completions t
      else
        let last_word = last words in
        if CHR ''.'' \<in> set last_word then
          (let parts = split_sep (CHR ''.'') last_word;
               obj_name = join ''.'' (butlast parts);
               attr_prefix = last parts
           in case eval_dir rt obj_name (python_executor t) of
                Some names \<Rightarrow>
                  map (\<lambda>attr. obj_name @ ''.'' @ attr)
                    (filter (\<lambda>attr. startswith attr attr_prefix) names)
              | None \<Rightarrow> [])
        else
          sort (remdups
            (filter (\<lambda>name. startswith name last_word \<and> \<not> startswith name ''_'')
               (dict_keys (globals_dict (python_executor t)))
             @ filter (\<lambda>name. startswith name last_word \<and> \<not> startswith name ''_'')
                 (builtins_names (python_executor t)))))"

text \<open>
  The listing of lines 783 to 792: every candidate filled to \<^verbatim>\<open>max_width + 2\<close> columns, a
  line break before every candidate whose index is a positive multiple of \<^verbatim>\<open>cols\<close>.
\<close>

fun listing_from :: "nat \<Rightarrow> nat \<Rightarrow> nat \<Rightarrow> string list \<Rightarrow> string" where
  "listing_from cols width i [] = []"
| "listing_from cols width i (completion # rest) =
     (if 0 < i \<and> i mod cols = 0 then [CHR 0x0A] else []) @ ljust width completion
     @ listing_from cols width (Suc i) rest"

definition listing :: "string list \<Rightarrow> string" where
  "listing completions =
     (let max_width = foldr max (map length completions) 0;
          cols = max 1 (80 div (max_width + 2))
      in listing_from cols (max_width + 2) 0 completions)"

definition handle_tab_completion :: "runtime \<Rightarrow> terminal \<Rightarrow> terminal" where
  "handle_tab_completion rt t =
     (let current_command = get_current_command t;
          cursor_pos = int (cursor t) - int (command_start_position t);
          completions = get_completions rt t current_command cursor_pos
      in if completions = [] then t
         else if length completions = 1 then
           (let words = split (slice_to current_command cursor_pos) in
            if words \<noteq> [] then
              (let last_word = last words;
                   completion = completions ! 0;
                   insert_text =
                     (if CHR ''.'' \<in> set last_word then
                        (let parts = split_sep (CHR ''.'') last_word;
                             prefix_to_replace = last parts;
                             attr_name = last (split_sep (CHR ''.'') completion)
                         in drop (length prefix_to_replace) attr_name)
                      else drop (length last_word) completion)
               in insert_at_cursor insert_text t)
            else t)
         else
           insert_at_end current_command
             (insert_prompt
                (insert_at_end ([CHR 0x0A] @ listing completions @ [CHR 0x0A]) t)))"

subsection \<open>Return, history, and the end of a turn\<close>

definition handle_return :: "terminal \<Rightarrow> terminal \<times> action list" where
  "handle_return t =
     (let command = get_current_command t;
          t1 = insert_at_end [CHR 0x0A] t
      in if waiting_for_input t1 then
           (t1\<lparr>waiting_for_input := False, input_prompt := []\<rparr>, [Send (Provide_input command)])
         else if pyco_download_pending t1 then
           (let response = lower (strip command) in
            if response = ''y'' \<or> response = ''yes'' then (t1, [Download_pyco])
            else if response = ''n'' \<or> response = ''no'' then
              (insert_prompt
                 ((append_system_message (''Download cancelled.'' @ [CHR 0x0A]) t1)
                    \<lparr>pyco_download_pending := False\<rparr>), [])
            else
              (let t2 = append_system_message ''Please enter 'y' for yes or 'n' for no: '' t1
               in (t2\<lparr>command_start_position := cursor t2\<rparr>, [])))
         else if strip command \<noteq> [] then
           (let history =
                  (if command_history t1 = [] \<or> last (command_history t1) \<noteq> command
                   then command_history t1 @ [command] else command_history t1)
            in (t1\<lparr>command_history := history, history_index := int (length history),
                    python_executor := (python_executor t1)\<lparr>code := command\<rparr>\<rparr>,
                [Start_execution]))
         else (insert_prompt t1, []))"

definition on_execution_finished :: "string \<Rightarrow> bool \<Rightarrow> terminal \<Rightarrow> terminal" where
  "on_execution_finished output is_error t =
     insert_prompt (if output \<noteq> [] then insert_at_end (output @ [CHR 0x0A]) t else t\<lparr>cursor := length (document t)\<rparr>)"

definition navigate_history :: "int \<Rightarrow> terminal \<Rightarrow> terminal" where
  "navigate_history direction t =
     (if command_history t = [] then t
      else
        let new_index = history_index t + direction in
        if 0 \<le> new_index \<and> new_index < int (length (command_history t)) then
          set_current_command (command_history t ! nat new_index) (t\<lparr>history_index := new_index\<rparr>)
        else if int (length (command_history t)) \<le> new_index then
          set_current_command [] (t\<lparr>history_index := int (length (command_history t))\<rparr>)
        else t)"

section \<open>Sample sessions\<close>

text \<open>
  A new \<^verbatim>\<open>PythonExecutor\<close> in a new process, after \<^verbatim>\<open>__init__\<close> and
  \<^verbatim>\<open>setup_python_environment\<close>, for a given \<^verbatim>\<open>dir(builtins)\<close>: the three seeded globals,
  the streams of the process, the interpreter's own hooks (hook 0) and no \<^verbatim>\<open>builtins._\<close>.
\<close>

definition initial_state :: "string list \<Rightarrow> state" where
  "initial_state builtins_dir =
     \<lparr>code = [],
      globals_dict = [(''__name__'', PyObj 1 ''__main__''), (''sys'', PyObj 2 ''<module sys>''),
                      (''builtins'', PyObj 3 ''<module builtins>'')],
      locals_dict = [],
      input_response = None,
      interrupted = False,
      initial_globals = [''__name__'', ''sys'', ''builtins'']
                        @ filter (\<lambda>name. \<not> startswith name ''_'') builtins_dir,
      sys_stdout = Device 1, sys_stderr = Device 2, sys_stdin = Device 0,
      sys_displayhook = Some 0, sys_excepthook = Some 0,
      builtins_input = Builtin_input,
      builtins_underscore = None,
      builtins_names = builtins_dir,
      stdout_capture = [], stderr_capture = [],
      next_id = 4\<rparr>"

definition ZeroDivisionError :: pyexc where
  "ZeroDivisionError = PyExc Exception_kind ''ZeroDivisionError'' ''division by zero''"

text \<open>
  An interpreter for one turn: the fragment is an expression that points \<^verbatim>\<open>sys.stdout\<close>
  elsewhere and then divides by zero, and the exception hook raises whenever it is called.
\<close>

definition failing_hook_runtime :: runtime where
  "failing_hook_runtime =
     \<lparr>compile_eval =
        (\<lambda>src. Inr (Effect (\<lambda>st. st\<lparr>sys_stdout := Device 9\<rparr>) (Raise ZeroDivisionError))),
      compile_exec = (\<lambda>src. Inl (PyExc SyntaxError_kind ''SyntaxError'' ''invalid syntax'')),
      call_displayhook = (\<lambda>h v. Return PyNone),
      call_excepthook = (\<lambda>h e. Raise (PyExc Exception_kind ''RuntimeError'' ''hook failed'')),
      eval_dir = (\<lambda>obj_name st. None)\<rparr>"

text \<open>
  A new \<^verbatim>\<open>TerminalWidget\<close> after \<^verbatim>\<open>__init__\<close>, and the submission of a command: the text is
  put in the line buffer, Return is pressed, and the turn ends without output.
\<close>

definition new_terminal :: terminal where
  "new_terminal =
     \<lparr>document = [], cursor = 0, command_start_position = 0,
      command_history = [], history_index = - 1,
      current_prompt = ''>>> '',
      waiting_for_input = False, pyco_download_pending = False, input_prompt = [],
      last_input_cursor_position = None,
      python_executor = initial_state []\<rparr>"




section \<open>Notions for the statements\<close>



definition interrupted_turn :: "runtime \<Rightarrow> conf \<Rightarrow> bool" where
  "interrupted_turn rt c =
     (case c of (st, rs, evs) \<Rightarrow>
        (case inner_try rt (\<lparr>result_value = PyNone, exception_occurred = False\<rparr>,
                             install (st\<lparr>interrupted := False\<rparr>), rs, evs) of
           (Exc e, _) \<Rightarrow> is_KeyboardInterrupt e
         | _ \<Rightarrow> False))"


text \<open>
  What the interpreter's own hooks do: \<^verbatim>\<open>sys.__displayhook__\<close> prints the \<^verbatim>\<open>repr\<close> of the
  value and stores the value in \<^verbatim>\<open>builtins._\<close>; \<^verbatim>\<open>sys.__excepthook__\<close> writes the traceback
  to \<^verbatim>\<open>sys.stderr\<close>. Both return \<^verbatim>\<open>None\<close>.
\<close>

definition cpython_displayhook :: "pyval \<Rightarrow> pycode" where
  "cpython_displayhook v =
     Effect (\<lambda>st. (py_print (repr_text v) st)\<lparr>builtins_underscore := Some v\<rparr>) (Return PyNone)"

definition traceback :: "pyexc \<Rightarrow> string" where
  "traceback e = ''Traceback (most recent call last):'' @ [CHR 0x0A] @ basic_error e"

definition cpython_excepthook :: "pyexc \<Rightarrow> pycode" where
  "cpython_excepthook e =
     Effect (\<lambda>st. write_stream (sys_stderr st) (traceback e) st) (Return PyNone)"

definition invalid_syntax :: pyexc where
  "invalid_syntax = PyExc SyntaxError_kind ''SyntaxError'' ''invalid syntax''"

text \<open>
  A small interpreter for the sample turns. Its fragments: a division by zero, an
  addition, a call of \<^verbatim>\<open>input()\<close> that lets an interrupt pass, an expression that prints
  and then raises \<^verbatim>\<open>SyntaxError\<close> while it is evaluated, and the assignment \<^verbatim>\<open>zz = 1\<close>,
  which \<^verbatim>\<open>exec\<close> with two dictionaries stores in the locals. Display hook 1 is a user's
  hook that prints like the built-in one and returns a string; exception hook 1 is a user's
  hook that writes two lines to \<^verbatim>\<open>sys.stderr\<close>. The module \<^verbatim>\<open>sys\<close> is the one object whose
  attributes completion can list; it has three.
\<close>

definition sample_expressions :: "string \<Rightarrow> pyexc + pycode" where
  "sample_expressions src =
     (if src = ''1/0'' then Inr (Raise ZeroDivisionError)
      else if src = ''40 + 2'' then Inr (Return (PyObj 42 ''42''))
      else if src = ''input()'' then
        Inr (Input [] (\<lambda>r. case r of Inl e \<Rightarrow> Raise e | Inr text \<Rightarrow> Return (PyObj 20 text)))
      else if src = ''print('hi') or eval('(')'' then
        Inr (Effect (py_print ''hi'') (Raise invalid_syntax))
      else Inl invalid_syntax)"

definition sample_statements :: "string \<Rightarrow> pyexc + pycode" where
  "sample_statements src =
     (case sample_expressions src of
        Inr compiled \<Rightarrow> Inr compiled
      | Inl e \<Rightarrow>
          if src = ''zz = 1'' then
            Inr (Effect (\<lambda>st. st\<lparr>locals_dict := dict_set (locals_dict st) ''zz'' (PyObj 21 ''1'')\<rparr>)
                   (Return PyNone))
          else Inl e)"

definition sample_runtime :: runtime where
  "sample_runtime =
     \<lparr>compile_eval = sample_expressions,
      compile_exec = sample_statements,
      call_displayhook =
        (\<lambda>h v. if h = 0 then cpython_displayhook v
               else if h = 1 then
                 Effect (\<lambda>st. (py_print (repr_text v) st)\<lparr>builtins_underscore := Some v\<rparr>)
                   (Return (PyObj 30 ''shown''))
               else Return PyNone),
      call_excepthook =
        (\<lambda>h e. if h = 0 then cpython_excepthook e
               else Effect (\<lambda>st. write_stream (sys_stderr st) interrupt_text st) (Return PyNone)),
      eval_dir =
        (\<lambda>obj_name st. if obj_name = ''sys'' then Some [''argv'', ''exit'', ''path''] else None)\<rparr>"

text \<open>
  Whether the display hook changed \<^verbatim>\<open>builtins._\<close>, given the attribute before the call and
  the object found after it: there was no attribute before, or the object is another one.
\<close>

definition hook_updated :: "pyval option \<Rightarrow> pyval \<Rightarrow> bool" where
  "hook_updated before u = (case before of None \<Rightarrow> True | Some old \<Rightarrow> \<not> py_is u old)"

text \<open>
  Two turns on \<^verbatim>\<open>40 + 2\<close> in a new process, one under the user's display hook 1, one under
  a display hook that does nothing and returns \<^verbatim>\<open>None\<close>.
\<close>

definition shown_hook_state :: state where
  "shown_hook_state = (initial_state [])\<lparr>code := ''40 + 2'', sys_displayhook := Some 1\<rparr>"

definition silent_hook_state :: state where
  "silent_hook_state = (initial_state [])\<lparr>code := ''40 + 2'', sys_displayhook := Some 2\<rparr>"



text \<open>
  A turn on \<^verbatim>\<open>input()\<close>, and a turn on \<^verbatim>\<open>1/0\<close> in a process where executed code has set
  \<^verbatim>\<open>sys.excepthook\<close> to the user's hook 1.
\<close>

definition input_state :: state where
  "input_state = (initial_state [])\<lparr>code := ''input()''\<rparr>"

definition user_excepthook_state :: state where
  "user_excepthook_state = (initial_state [])\<lparr>code := ''1/0'', sys_excepthook := Some 1\<rparr>"

text \<open>
  A turn on an expression that prints and then raises \<^verbatim>\<open>SyntaxError\<close> while it is evaluated;
  the state after a turn on \<^verbatim>\<open>zz = 1\<close> in a process whose \<^verbatim>\<open>dir(builtins)\<close> is \<^verbatim>\<open>abs\<close>,
  \<^verbatim>\<open>pow\<close>, \<^verbatim>\<open>print\<close>, \<^verbatim>\<open>zip\<close>; and a widget on that executor with a command typed at the
  prompt.
\<close>

definition print_then_syntax_error_state :: state where
  "print_then_syntax_error_state = (initial_state [])\<lparr>code := ''print('hi') or eval('(')''\<rparr>"

definition after_assignment :: state where
  "after_assignment =
     fst (snd (run sample_runtime ((initial_state [''abs'', ''pow'', ''print'', ''zip''])\<lparr>code := ''zz = 1''\<rparr>, [], [])))"

definition typing :: "string \<Rightarrow> terminal" where
  "typing command =
     set_current_command command (insert_prompt (new_terminal\<lparr>python_executor := after_assignment\<rparr>))"


section \<open>Evaluation rules\<close>

lemmas run_defs = run_def inner_try_def try_expression_def try_statement_def handle_exception_def
  display_result_def finish_def restore_def install_def getattr_underscore_def
  interactive_input_def combined_output_def py_print_def write_stream_def
  strip_def py_isspace_def is_SyntaxError_def is_KeyboardInterrupt_def is_Exception_def
  basic_error_def execution_error_def interrupt_text_def KeyboardInterrupt_def py_is_def

section \<open>The redirection is undone on every exit\<close>

lemma finish_handles:
  "finish (fr, st, rs, evs) = (st', rs', evs') \<Longrightarrow>
     sys_stdout st' = sys_stdout st \<and> sys_stderr st' = sys_stderr st \<and>
     sys_stdin st' = sys_stdin st \<and> builtins_input st' = builtins_input st"
  by (auto simp: finish_def Let_def split: if_splits)

text \<open>
  Claim C5. However a call of \<^verbatim>\<open>run\<close> ends (it returns after a normal turn, after an
  exception or after a cancellation, or an exception leaves it because a hook raised),
  \<^verbatim>\<open>sys.stdout\<close>, \<^verbatim>\<open>sys.stderr\<close>, \<^verbatim>\<open>sys.stdin\<close> and \<^verbatim>\<open>builtins.input\<close> are what they were when
  the call began, whatever the executed code did to them. Only a worker that stays in an
  input wait for ever has not left the turn.
\<close>

theorem run_restores_handles:
  assumes "run rt (st, rs, evs) = (out, st', rs', evs')" and "out \<noteq> Waiting"
  shows "sys_stdout st' = sys_stdout st \<and> sys_stderr st' = sys_stderr st \<and>
         sys_stdin st' = sys_stdin st \<and> builtins_input st' = builtins_input st"
  using assms
  by (auto simp: run_def Let_def restore_def
           split: if_splits prod.splits signal.splits dest!: finish_handles)

lemma failing_hook_run:
  "run failing_hook_runtime ((initial_state [])\<lparr>code := ''1/0''\<rparr>, [], []) =
     (Propagated (PyExc Exception_kind ''RuntimeError'' ''hook failed''),
      (initial_state [])\<lparr>code := ''1/0''\<rparr>, [], [])"
  by (simp add: run_defs failing_hook_runtime_def initial_state_def ZeroDivisionError_def Let_def)

theorem run_restores_handles_witness:
  "fst (run failing_hook_runtime ((initial_state [])\<lparr>code := ''1/0''\<rparr>, [], [])) \<noteq> Waiting \<and>
   sys_stdout (fst (snd (run failing_hook_runtime ((initial_state [])\<lparr>code := ''1/0''\<rparr>, [], []))))
     = Device 1 \<and>
   sys_stderr (fst (snd (run failing_hook_runtime ((initial_state [])\<lparr>code := ''1/0''\<rparr>, [], []))))
     = Device 2 \<and>
   sys_stdin (fst (snd (run failing_hook_runtime ((initial_state [])\<lparr>code := ''1/0''\<rparr>, [], []))))
     = Device 0 \<and>
   builtins_input (fst (snd (run failing_hook_runtime ((initial_state [])\<lparr>code := ''1/0''\<rparr>, [], []))))
     = Builtin_input"
  using run_restores_handles [OF failing_hook_run] failing_hook_run
  by (simp add: initial_state_def)

section \<open>Properties of the line editor\<close>

lemmas terminal_defs = handle_return_def navigate_history_def set_current_command_def
  get_current_command_def insert_at_end_def insert_at_cursor_def insert_prompt_def
  append_system_message_def on_execution_finished_def




subsection \<open>Empty submissions\<close>




subsection \<open>Command history\<close>



section \<open>The final event\<close>














lemmas sample_defs = sample_runtime_def sample_expressions_def sample_statements_def
  cpython_displayhook_def cpython_excepthook_def traceback_def invalid_syntax_def
  ZeroDivisionError_def initial_state_def







section \<open>The last result\<close>

lemma dict_get_dict_set: "dict_get (dict_set d k v) k = Some v"
  by (induction d) (auto simp: dict_get_def)

text \<open>
  Claim C1, as the code has it. Let the fragment compile as an expression and evaluate,
  without raising, to a value that is not \<^verbatim>\<open>None\<close>; let there be a callable display hook that
  returns without raising, and let \<^verbatim>\<open>builtins._\<close> exist when it has returned. If the hook
  changed \<^verbatim>\<open>builtins._\<close> (there was none before, or it is another object now), the entry
  \<^verbatim>\<open>_\<close> of the globals is the object the hook stored, whatever the hook returned, and the
  engine leaves \<^verbatim>\<open>builtins._\<close> as the hook set it. Otherwise the entry \<^verbatim>\<open>_\<close> and
  \<^verbatim>\<open>builtins._\<close> are the value the hook returned if that is not \<^verbatim>\<open>None\<close>, and else the value
  of the expression.
\<close>

theorem last_result_after_expression:
  assumes ne: "strip (code st) \<noteq> []"
    and comp: "compile_eval rt (code st) = Inr compiled"
    and ev: "exec_code compiled (install (st\<lparr>interrupted := False\<rparr>), rs, evs) = (Value v, st1, rs1, evs1)"
    and nn: "v \<noteq> PyNone"
    and hk: "sys_displayhook st1 = Some h"
    and call: "exec_code (call_displayhook rt h v) (snd (getattr_underscore st1), rs1, evs1)
                 = (Value r, st2, rs2, evs2)"
    and after: "builtins_underscore st2 = Some u"
  shows "fst (run rt (st, rs, evs)) = Returned \<and>
         dict_get (globals_dict (fst (snd (run rt (st, rs, evs))))) ''_'' =
           Some (if hook_updated (builtins_underscore st1) u then u
                 else if r \<noteq> PyNone then r else v) \<and>
         builtins_underscore (fst (snd (run rt (st, rs, evs)))) =
           Some (if hook_updated (builtins_underscore st1) u then u
                 else if r \<noteq> PyNone then r else v)"
proof -
  let ?fr = "\<lparr>result_value = PyNone, exception_occurred = False\<rparr>"
  let ?st3 = "st2\<lparr>next_id := Suc (next_id st2)\<rparr>"
  have cd: "code (install (st\<lparr>interrupted := False\<rparr>)) = code st"
    by (simp add: install_def)
  show ?thesis
  proof (cases "hook_updated (builtins_underscore st1) u")
    case True
    then have "is_not (Found u) (fst (getattr_underscore st1))"
      by (auto simp: hook_updated_def getattr_underscore_def split: option.splits)
    with hk call after nn
    have "display_result rt v (?fr, st1, rs1, evs1) =
            (Normal, ?fr, ?st3\<lparr>globals_dict := dict_set (globals_dict ?st3) ''_'' u\<rparr>, rs2, evs2)"
      by (simp add: display_result_def getattr_underscore_def split: option.splits prod.splits)
    with comp ev cd
    have "inner_try rt (?fr, install (st\<lparr>interrupted := False\<rparr>), rs, evs) =
            (Normal, ?fr, ?st3\<lparr>globals_dict := dict_set (globals_dict ?st3) ''_'' u\<rparr>, rs2, evs2)"
      by (simp add: inner_try_def try_expression_def)
    with ne True after show ?thesis
      by (simp add: run_def Let_def finish_def restore_def dict_get_dict_set)
  next
    case False
    let ?res = "if r \<noteq> PyNone then r else v"
    from False have "\<not> is_not (Found u) (fst (getattr_underscore st1))"
      by (auto simp: hook_updated_def getattr_underscore_def split: option.splits)
    with hk call after nn
    have "display_result rt v (?fr, st1, rs1, evs1) =
            (Normal, ?fr\<lparr>result_value := ?res\<rparr>, ?st3, rs2, evs2)"
      by (simp add: display_result_def getattr_underscore_def split: option.splits prod.splits)
    with comp ev cd
    have "inner_try rt (?fr, install (st\<lparr>interrupted := False\<rparr>), rs, evs) =
            (Normal, ?fr\<lparr>result_value := ?res\<rparr>, ?st3, rs2, evs2)"
      by (simp add: inner_try_def try_expression_def)
    with ne False nn show ?thesis
      by (simp add: run_def Let_def finish_def restore_def dict_get_dict_set)
  qed
qed


theorem last_result_after_expression_witness:
  "strip (code ((initial_state [])\<lparr>code := ''40 + 2''\<rparr>)) \<noteq> [] \<and>
   compile_eval sample_runtime (code ((initial_state [])\<lparr>code := ''40 + 2''\<rparr>))
     = Inr (Return (PyObj 42 ''42'')) \<and>
   PyObj 42 ''42'' \<noteq> PyNone \<and>
   hook_updated None (PyObj 42 ''42'') \<and>
   fst (run sample_runtime ((initial_state [])\<lparr>code := ''40 + 2''\<rparr>, [], [])) = Returned \<and>
   dict_get (globals_dict (fst (snd (run sample_runtime ((initial_state [])\<lparr>code := ''40 + 2''\<rparr>, [], [])))))
     ''_'' = Some (PyObj 42 ''42'') \<and>
   builtins_underscore (fst (snd (run sample_runtime ((initial_state [])\<lparr>code := ''40 + 2''\<rparr>, [], []))))
     = Some (PyObj 42 ''42'')"
proof -
  let ?st = "(initial_state [])\<lparr>code := ''40 + 2''\<rparr>"
  let ?st1 = "install (?st\<lparr>interrupted := False\<rparr>)"
  let ?c = "(snd (getattr_underscore ?st1), [], [])"
  let ?hook = "call_displayhook sample_runtime 0 (PyObj 42 ''42'')"
  have ne: "strip (code ?st) \<noteq> []" by (simp add: strip_def py_isspace_def)
  have comp: "compile_eval sample_runtime (code ?st) = Inr (Return (PyObj 42 ''42''))"
    by (simp add: sample_defs)
  have ev: "exec_code (Return (PyObj 42 ''42'')) (?st1, [], []) = (Value (PyObj 42 ''42''), ?st1, [], [])"
    by simp
  have nn: "PyObj 42 ''42'' \<noteq> PyNone" by simp
  have hk: "sys_displayhook ?st1 = Some 0" by (simp add: install_def initial_state_def)
  have call: "exec_code ?hook ?c = (Value PyNone, fst (snd (exec_code ?hook ?c)), [], [])"
    by (simp add: sample_defs)
  have after: "builtins_underscore (fst (snd (exec_code ?hook ?c))) = Some (PyObj 42 ''42'')"
    by (simp add: sample_defs)
  have before: "builtins_underscore ?st1 = None" by (simp add: install_def initial_state_def)
  have upd: "hook_updated None (PyObj 42 ''42'')" by (simp add: hook_updated_def)
  from last_result_after_expression [OF ne comp ev nn hk call after] before upd ne comp
  show ?thesis by simp
qed


text \<open>
  Under display hook 1, which stores the value in \<^verbatim>\<open>builtins._\<close> as the built-in hook does
  and returns the string \<^verbatim>\<open>shown\<close>, the turn \<^verbatim>\<open>40 + 2\<close> leaves 42 in \<^verbatim>\<open>_\<close>, not the value
  the hook returned.
\<close>

theorem last_result_counterexample:
  "compile_eval sample_runtime (code shown_hook_state) = Inr (Return (PyObj 42 ''42'')) \<and>
   fst (exec_code (call_displayhook sample_runtime 1 (PyObj 42 ''42''))
          (install shown_hook_state, [], [])) = Value (PyObj 30 ''shown'') \<and>
   PyObj 30 ''shown'' \<noteq> PyNone \<and>
   fst (run sample_runtime (shown_hook_state, [], [])) = Returned \<and>
   dict_get (globals_dict (fst (snd (run sample_runtime (shown_hook_state, [], []))))) ''_''
     = Some (PyObj 42 ''42'') \<and>
   PyObj 42 ''42'' \<noteq> PyObj 30 ''shown''"
  by (simp add: shown_hook_state_def run_defs sample_defs dict_get_def Let_def)

text \<open>
  When \<^verbatim>\<open>builtins\<close> has no attribute \<^verbatim>\<open>_\<close> before and after the call of the hook, the two
  \<^verbatim>\<open>getattr\<close> defaults are two objects, the engine takes the hook to have stored the second
  one, and that bare object becomes the last result.
\<close>

lemma bare_object_becomes_last_result:
  "fst (run sample_runtime (silent_hook_state, [], [])) = Returned \<and>
   dict_get (globals_dict (fst (snd (run sample_runtime (silent_hook_state, [], []))))) ''_''
     = Some (PyObj 5 ''<object object>'') \<and>
   builtins_underscore (fst (snd (run sample_runtime (silent_hook_state, [], [])))) = None"
  by (simp add: silent_hook_state_def run_defs sample_defs dict_get_def Let_def)

section \<open>The last result leaves the namespace\<close>




section \<open>Cancellation during an input wait\<close>

lemma interrupt_raises:
  "interactive_input prompt (st, Interrupt_execution # rs, evs) =
     (Some (Inl KeyboardInterrupt),
      (if stdout_capture st \<noteq> [] then st\<lparr>stdout_capture := []\<rparr> else st)
        \<lparr>input_response := None, interrupted := True\<rparr>,
      rs,
      (if stdout_capture st \<noteq> [] then evs @ [Output_ready (stdout_capture st)] else evs)
        @ [Input_requested prompt])"
  by (simp add: interactive_input_def Let_def)

lemma interrupt_text_not_fallback:
  "interrupt_text \<noteq> basic_error e \<and> interrupt_text \<noteq> execution_error e \<and>
   interrupt_text \<noteq> traceback e"
proof -
  have l: "last interrupt_text = CHR ''t''" by (simp add: interrupt_text_def)
  have b: "last (basic_error e) = CHR 0x0A" by (simp add: basic_error_def)
  have x: "last (execution_error e) = CHR 0x0A" by (simp add: execution_error_def)
  have t: "last (traceback e) = CHR 0x0A" by (simp add: traceback_def basic_error_def)
  have "interrupt_text \<noteq> basic_error e"
  proof
    assume "interrupt_text = basic_error e"
    then have "last interrupt_text = last (basic_error e)" by simp
    with l b show False by simp
  qed
  moreover have "interrupt_text \<noteq> execution_error e"
  proof
    assume "interrupt_text = execution_error e"
    then have "last interrupt_text = last (execution_error e)" by simp
    with l x show False by simp
  qed
  moreover have "interrupt_text \<noteq> traceback e"
  proof
    assume "interrupt_text = traceback e"
    then have "last interrupt_text = last (traceback e)" by simp
    with l t show False by simp
  qed
  ultimately show ?thesis by simp
qed

text \<open>
  Claim C3, as the code has it. \<^verbatim>\<open>interrupt_execution\<close> during an input wait makes
  \<^verbatim>\<open>interactive_input\<close> raise \<^verbatim>\<open>KeyboardInterrupt\<close>. When the executed fragment, run as an
  expression or as statements, lets a \<^verbatim>\<open>KeyboardInterrupt\<close> pass, the call of \<^verbatim>\<open>run\<close>
  returns with the state as the fragment left it, the redirection undone, no exception hook
  called, and one final event \<^verbatim>\<open>execution_finished("^C\nKeyboardInterrupt", True)\<close>; the
  controller appends these two lines and a new prompt. The event is the same signal that
  reports errors, with the error flag set; its text differs from every text the engine's
  own fallbacks and the built-in exception hook produce.
\<close>

theorem interrupt_ends_turn:
  assumes ne: "strip (code st) \<noteq> []"
    and body:
      "(compile_eval rt (code st) = Inr compiled \<and>
        exec_code compiled (install (st\<lparr>interrupted := False\<rparr>), rs, evs) = (Raised e, st1, rs1, evs1))
       \<or>
       (compile_eval rt (code st) = Inl syntax_error \<and> is_SyntaxError syntax_error \<and>
        compile_exec rt (code st) = Inr compiled \<and>
        exec_code compiled (install (st\<lparr>interrupted := False\<rparr>), rs, evs) = (Raised e, st1, rs1, evs1))"
    and ki: "is_KeyboardInterrupt e"
  shows "run rt (st, rs, evs) =
           (Returned,
            restore (sys_stdout st) (sys_stderr st) (sys_stdin st) (builtins_input st) st1,
            rs1, evs1 @ [Execution_finished interrupt_text True]) \<and>
         fst (interactive_input prompt (s, Interrupt_execution # replies, events))
           = Some (Inl KeyboardInterrupt) \<and>
         is_KeyboardInterrupt KeyboardInterrupt \<and>
         document (on_execution_finished interrupt_text True t) =
           document t @ ''^C'' @ [CHR 0x0A] @ ''KeyboardInterrupt'' @ [CHR 0x0A] @ current_prompt t \<and>
         interrupt_text \<noteq> basic_error e' \<and> interrupt_text \<noteq> execution_error e' \<and>
         interrupt_text \<noteq> traceback e'"
proof -
  let ?fr = "\<lparr>result_value = PyNone, exception_occurred = False\<rparr>"
  have cd: "code (install (st\<lparr>interrupted := False\<rparr>)) = code st" by (simp add: install_def)
  from ki have nse: "\<not> is_SyntaxError e"
    by (simp add: is_KeyboardInterrupt_def is_SyntaxError_def)
  from body have "inner_try rt (?fr, install (st\<lparr>interrupted := False\<rparr>), rs, evs) = (Exc e, ?fr, st1, rs1, evs1)"
  proof
    assume "compile_eval rt (code st) = Inr compiled \<and>
        exec_code compiled (install (st\<lparr>interrupted := False\<rparr>), rs, evs) = (Raised e, st1, rs1, evs1)"
    with ki nse cd show ?thesis by (simp add: inner_try_def try_expression_def)
  next
    assume "compile_eval rt (code st) = Inl syntax_error \<and> is_SyntaxError syntax_error \<and>
        compile_exec rt (code st) = Inr compiled \<and>
        exec_code compiled (install (st\<lparr>interrupted := False\<rparr>), rs, evs) = (Raised e, st1, rs1, evs1)"
    with ki cd show ?thesis by (simp add: inner_try_def try_expression_def try_statement_def)
  qed
  with ne ki have r: "run rt (st, rs, evs) =
           (Returned,
            restore (sys_stdout st) (sys_stderr st) (sys_stdin st) (builtins_input st) st1,
            rs1, evs1 @ [Execution_finished interrupt_text True])"
    by (simp add: run_def Let_def)
  have rendering: "document (on_execution_finished interrupt_text True t) =
           document t @ ''^C'' @ [CHR 0x0A] @ ''KeyboardInterrupt'' @ [CHR 0x0A] @ current_prompt t"
    by (simp add: on_execution_finished_def insert_prompt_def insert_at_end_def interrupt_text_def Let_def)
  have k: "is_KeyboardInterrupt KeyboardInterrupt"
    by (simp add: is_KeyboardInterrupt_def KeyboardInterrupt_def)
  from r rendering k interrupt_raises [of prompt s replies events] interrupt_text_not_fallback [of e']
  show ?thesis by simp
qed

theorem interrupt_ends_turn_witness:
  "strip (code input_state) \<noteq> [] \<and>
   compile_eval sample_runtime (code input_state) =
     Inr (Input [] (\<lambda>r. case r of Inl e \<Rightarrow> Raise e | Inr text \<Rightarrow> Return (PyObj 20 text))) \<and>
   is_KeyboardInterrupt KeyboardInterrupt \<and>
   run sample_runtime (input_state, [Interrupt_execution], []) =
     (Returned, input_state\<lparr>interrupted := True\<rparr>, [],
      [Input_requested [], Execution_finished interrupt_text True])"
proof -
  let ?k = "\<lambda>r. case r of Inl e \<Rightarrow> Raise e | Inr text \<Rightarrow> Return (PyObj 20 text)"
  let ?st1 = "(install (input_state\<lparr>interrupted := False\<rparr>))\<lparr>input_response := None, interrupted := True\<rparr>"
  have ne: "strip (code input_state) \<noteq> []"
    by (simp add: input_state_def strip_def py_isspace_def)
  have comp: "compile_eval sample_runtime (code input_state) = Inr (Input [] ?k)"
    by (simp add: input_state_def sample_defs)
  have ev: "exec_code (Input [] ?k) (install (input_state\<lparr>interrupted := False\<rparr>), [Interrupt_execution], [])
              = (Raised KeyboardInterrupt, ?st1, [], [Input_requested []])"
    by (simp add: interrupt_raises install_def)
  have ki: "is_KeyboardInterrupt KeyboardInterrupt"
    by (simp add: is_KeyboardInterrupt_def KeyboardInterrupt_def)
  have body: "(compile_eval sample_runtime (code input_state) = Inr (Input [] ?k) \<and>
        exec_code (Input [] ?k) (install (input_state\<lparr>interrupted := False\<rparr>), [Interrupt_execution], [])
          = (Raised KeyboardInterrupt, ?st1, [], [Input_requested []]))
       \<or>
       (compile_eval sample_runtime (code input_state) = Inl invalid_syntax \<and> is_SyntaxError invalid_syntax \<and>
        compile_exec sample_runtime (code input_state) = Inr (Input [] ?k) \<and>
        exec_code (Input [] ?k) (install (input_state\<lparr>interrupted := False\<rparr>), [Interrupt_execution], [])
          = (Raised KeyboardInterrupt, ?st1, [], [Input_requested []]))"
    using comp ev by simp
  have fin: "restore (sys_stdout input_state) (sys_stderr input_state) (sys_stdin input_state)
               (builtins_input input_state) ?st1 = input_state\<lparr>interrupted := True\<rparr>"
    by (simp add: restore_def install_def input_state_def initial_state_def)
  from interrupt_ends_turn [OF ne body ki] ne comp ki fin show ?thesis by simp
qed


text \<open>
  A cancelled \<^verbatim>\<open>input()\<close> and a division by zero under a user's exception hook that writes
  the same two lines to \<^verbatim>\<open>sys.stderr\<close> end with the same final event: the interrupted
  outcome is not a signal of its own and is told from an error by its text alone.
\<close>

lemma cancelled_input_run:
  "run sample_runtime (input_state, [Interrupt_execution], []) =
     (Returned, input_state\<lparr>interrupted := True\<rparr>, [],
      [Input_requested [], Execution_finished interrupt_text True])"
  by (simp add: input_state_def run_defs sample_defs Let_def)

lemma user_excepthook_run:
  "run sample_runtime (user_excepthook_state, [], []) =
     (Returned, user_excepthook_state\<lparr>stderr_capture := interrupt_text\<rparr>, [],
      [Execution_finished interrupt_text True])"
  by (simp add: user_excepthook_state_def run_defs sample_defs Let_def)

theorem interrupt_outcome_counterexample:
  "interrupted_turn sample_runtime (input_state, [Interrupt_execution], []) \<and>
   \<not> interrupted_turn sample_runtime (user_excepthook_state, [], []) \<and>
   compile_eval sample_runtime (code user_excepthook_state) = Inr (Raise ZeroDivisionError) \<and>
   last (snd (snd (snd (run sample_runtime (input_state, [Interrupt_execution], []))))) =
   last (snd (snd (snd (run sample_runtime (user_excepthook_state, [], [])))))"
proof -
  have a: "interrupted_turn sample_runtime (input_state, [Interrupt_execution], [])"
    by (simp add: interrupted_turn_def input_state_def run_defs sample_defs Let_def)
  have b: "\<not> interrupted_turn sample_runtime (user_excepthook_state, [], [])"
    by (simp add: interrupted_turn_def user_excepthook_state_def run_defs sample_defs Let_def)
  have c: "compile_eval sample_runtime (code user_excepthook_state) = Inr (Raise ZeroDivisionError)"
    by (simp add: user_excepthook_state_def sample_defs)
  from a b c show ?thesis by (simp add: cancelled_input_run user_excepthook_run)
qed

section \<open>Expression or statements\<close>

text \<open>
  An exception of the evaluation that is no \<^verbatim>\<open>SyntaxError\<close> never reaches the statement
  path: it is re-raised, handled by the exception hook, or passed on, by its class.
\<close>

lemma evaluation_error_not_retried:
  assumes "compile_eval rt (code st) = Inr compiled"
    and "exec_code compiled (st, rs, evs) = (Raised e, c1)"
    and "\<not> is_SyntaxError e"
  shows "inner_try rt (fr, st, rs, evs) =
           (if is_KeyboardInterrupt e then (Exc e, fr, c1)
            else if is_Exception e then handle_exception rt basic_error e (fr, c1)
            else (Exc e, fr, c1))"
  using assms by (simp add: inner_try_def try_expression_def)

text \<open>
  Claim C2 at \<^verbatim>\<open>print('hi') or eval('(')\<close>. The fragment compiles as an expression; its
  evaluation prints \<^verbatim>\<open>hi\<close> and then raises \<^verbatim>\<open>SyntaxError\<close>. The handler
  \<^verbatim>\<open>except SyntaxError\<close> covers the evaluation as well as the compilation, so the fragment
  is compiled and executed again as statements: \<^verbatim>\<open>hi\<close> is printed twice, and only the
  second \<^verbatim>\<open>SyntaxError\<close> goes to the exception hook.
\<close>

theorem runtime_syntax_error_reexecutes:
  "compile_eval sample_runtime (code print_then_syntax_error_state) =
     Inr (Effect (py_print ''hi'') (Raise invalid_syntax)) \<and>
   exec_code (Effect (py_print ''hi'') (Raise invalid_syntax))
     (install print_then_syntax_error_state, [], []) =
     (Raised invalid_syntax,
      (install print_then_syntax_error_state)\<lparr>stdout_capture := ''hi'' @ [CHR 0x0A]\<rparr>, [], []) \<and>
   run sample_runtime (print_then_syntax_error_state, [], []) =
     (Returned,
      print_then_syntax_error_state
        \<lparr>stdout_capture := ''hi'' @ [CHR 0x0A] @ ''hi'' @ [CHR 0x0A],
         stderr_capture := traceback invalid_syntax\<rparr>,
      [],
      [Execution_finished
         (''hi'' @ [CHR 0x0A] @ ''hi'' @ [CHR 0x0A] @ [CHR 0x0A] @ traceback invalid_syntax) True])"
  by (simp add: print_then_syntax_error_state_def run_defs sample_defs Let_def)

section \<open>Properties of completion\<close>

lemma after_assignment_eq:
  "after_assignment =
     (initial_state [''abs'', ''pow'', ''print'', ''zip''])
       \<lparr>code := ''zz = 1'', locals_dict := [(''zz'', PyObj 21 ''1'')]\<rparr>"
  by (simp add: after_assignment_def run_defs sample_defs Let_def)

text \<open>
  Claim C6 at \<^verbatim>\<open>zz = 1\<close>. The turn runs \<^verbatim>\<open>exec(compiled, globals_dict, locals_dict)\<close>, which
  binds \<^verbatim>\<open>zz\<close> in \<^verbatim>\<open>locals_dict\<close>; the name stays there for later turns. Completion reads
  \<^verbatim>\<open>globals_dict\<close> and \<^verbatim>\<open>dir(builtins)\<close> only: with \<^verbatim>\<open>z\<close> typed, the one candidate is \<^verbatim>\<open>zip\<close>,
  and Tab completes the buffer to \<^verbatim>\<open>zip\<close>.
\<close>

theorem assigned_name_not_completed:
  "dict_get (locals_dict after_assignment) ''zz'' = Some (PyObj 21 ''1'') \<and>
   get_current_command (typing ''z'') = ''z'' \<and>
   startswith ''zz'' ''z'' \<and> \<not> startswith ''zz'' ''_'' \<and>
   get_completions sample_runtime (typing ''z'') (get_current_command (typing ''z''))
     (int (cursor (typing ''z'')) - int (command_start_position (typing ''z''))) = [''zip''] \<and>
   get_current_command (handle_tab_completion sample_runtime (typing ''z'')) = ''zip''"
  by (simp add: typing_def after_assignment_eq initial_state_def new_terminal_def terminal_defs
        get_completions_def handle_tab_completion_def dict_get_def dict_keys_def startswith_def
        split_def slice_to_def py_isspace_def Let_def)






lemma sorted_names: "sorted (sort (remdups (names :: string list))) \<and> distinct (sort (remdups names))"
  by simp





text \<open>
  A name that is a key of the globals, starts with the typed word and not with an
  underscore, is among the candidates for a word without a dot.
\<close>

lemma global_name_is_candidate:
  assumes "split (slice_to command pos) \<noteq> []"
    and "CHR ''.'' \<notin> set (last (split (slice_to command pos)))"
    and "name \<in> set (dict_keys (globals_dict (python_executor t)))"
    and "startswith name (last (split (slice_to command pos)))"
    and "\<not> startswith name ''_''"
  shows "name \<in> set (get_completions rt t command pos)"
  using assms by (simp add: get_completions_def Let_def)

















end
